theory Spec2Isabelle
  imports Main
begin

section \<open>Data model\<close>

text \<open>
  The package wraps Go's \<^verbatim>\<open>net/http\<close> client. The standard library is not part of the
  repository: what it returns is an input of the model (the outcome of each call of
  \<^verbatim>\<open>hc.client.Do\<close>, the verdict of the URL parser, the result of the JSON encoder),
  and what the package itself does with it is translated from \<^verbatim>\<open>httpclient.go\<close> and
  \<^verbatim>\<open>types.go\<close>.
\<close>

subsection \<open>Machine integers\<close>

text \<open>
  Go's \<^verbatim>\<open>int\<close> has 64 bits on the 64-bit targets and \<^verbatim>\<open>time.Duration\<close> is an
  \<^verbatim>\<open>int64\<close> of nanoseconds. They are modelled as \<open>int\<close>; the one operation of the
  package that can leave the range on an \<^verbatim>\<open>int\<close>, the \<^verbatim>\<open>i++\<close> of the retry loop,
  wraps around as the language defines it.
\<close>

type_synonym Duration = int

definition MaxInt :: int where
  "MaxInt = 2 ^ 63 - 1"

definition MinInt :: int where
  "MinInt = - (2 ^ 63)"

definition int_inc :: "int \<Rightarrow> int" where
  "int_inc i = (if i = MaxInt then MinInt else i + 1)"

subsection \<open>Errors, requests and responses\<close>

text \<open>
  An \<^verbatim>\<open>error\<close> is one of: a value made by \<^verbatim>\<open>errors.New\<close> with its text, the value
  made by \<^verbatim>\<open>fmt.Errorf("unexpected status code: %d", code)\<close> with its code, or an error
  handed back by the standard library (transport, URL parser, JSON coder), named by a label.
\<close>

datatype error = ErrorsNew string | StatusErrorf int | LibError string

text \<open>
  A response body is a stream that is read and closed: the bytes not yet read, and whether
  \<^verbatim>\<open>Close\<close> has been called on it.
\<close>

record Body =
  unread :: string
  closed :: bool

record Response =
  StatusCode :: int
  Body :: Body

text \<open>\<^verbatim>\<open>http.Header\<close> is a \<^verbatim>\<open>map[string][]string\<close>.\<close>

type_synonym Header = "string \<rightharpoonup> string list"

record Request =
  Method :: string
  URL :: string
  Header :: Header
  req_Body :: "string option"

subsection \<open>Maps and header names\<close>

text \<open>
  A \<^verbatim>\<open>map[string]string\<close> is nil (\<open>None\<close>) or a map. Reading and ranging over a nil map
  behave as on an empty one.
\<close>

type_synonym gomap = "(string \<rightharpoonup> string) option"

definition entries :: "gomap \<Rightarrow> (string \<rightharpoonup> string)" where
  "entries hm = (case hm of None \<Rightarrow> Map.empty | Some m \<Rightarrow> m)"

text \<open>
  The language leaves the order in which \<^verbatim>\<open>range\<close> visits a map unspecified, and the
  runtime varies it from one loop to the next. The order is therefore an input: a function
  \<open>visit\<close> from the map to the list of its entries, in the order the loop meets them.
  \<open>range_visits m kvs\<close> says that \<open>kvs\<close> is such a list for \<open>m\<close>: each key once, with
  its value.
\<close>

type_synonym visit = "(string \<rightharpoonup> string) \<Rightarrow> (string \<times> string) list"

definition range_visits :: "(string \<rightharpoonup> string) \<Rightarrow> (string \<times> string) list \<Rightarrow> bool" where
  "range_visits m kvs \<longleftrightarrow> distinct (map fst kvs) \<and> map_of kvs = m"

definition range_over :: "visit \<Rightarrow> gomap \<Rightarrow> (string \<times> string) list" where
  "range_over visit hm = (case hm of None \<Rightarrow> [] | Some m \<Rightarrow> visit m)"

text \<open>
  \<^verbatim>\<open>req.Header.Set(key, value)\<close> and \<^verbatim>\<open>Header.Get(key)\<close> of \<^verbatim>\<open>net/http\<close> work on
  the canonical form of the key, \<^verbatim>\<open>textproto.CanonicalMIMEHeaderKey\<close>: a key made of
  header-field bytes only (letters, digits and \<^verbatim>\<open>!#$%&'*+-.^_`|~\<close>) gets its first letter
  and every letter after a hyphen in upper case and the others in lower case; any other
  key is left as it is. \<^verbatim>\<open>Set\<close> replaces the values stored under the canonical key by the
  one value; \<^verbatim>\<open>Get\<close> returns the first value stored under it, or the empty string.
\<close>

definition lower_letters :: string where
  "lower_letters = ''abcdefghijklmnopqrstuvwxyz''"

definition upper_letters :: string where
  "upper_letters = ''ABCDEFGHIJKLMNOPQRSTUVWXYZ''"

definition validHeaderFieldByte :: "char \<Rightarrow> bool" where
  "validHeaderFieldByte c \<longleftrightarrow>
     c \<in> set (lower_letters @ upper_letters @ ''0123456789'' @ ''!#$%&*+-.^_|~''
              @ [CHR 0x27, CHR 0x60])"

definition to_upper :: "char \<Rightarrow> char" where
  "to_upper c = (case map_of (zip lower_letters upper_letters) c of Some u \<Rightarrow> u | None \<Rightarrow> c)"

definition to_lower :: "char \<Rightarrow> char" where
  "to_lower c = (case map_of (zip upper_letters lower_letters) c of Some l \<Rightarrow> l | None \<Rightarrow> c)"

fun canonical_from :: "bool \<Rightarrow> string \<Rightarrow> string" where
  "canonical_from upper [] = []"
| "canonical_from upper (c # cs) =
     (let c' = (if upper then to_upper c else to_lower c)
      in c' # canonical_from (c' = CHR ''-'') cs)"

definition CanonicalMIMEHeaderKey :: "string \<Rightarrow> string" where
  "CanonicalMIMEHeaderKey s =
     (if list_all validHeaderFieldByte s then canonical_from True s else s)"

definition Header_Set :: "Header \<Rightarrow> string \<Rightarrow> string \<Rightarrow> Header" where
  "Header_Set h key val = h(CanonicalMIMEHeaderKey key \<mapsto> [val])"

definition Header_Get :: "Header \<Rightarrow> string \<Rightarrow> string" where
  "Header_Get h key =
     (case h (CanonicalMIMEHeaderKey key) of
        None \<Rightarrow> []
      | Some [] \<Rightarrow> []
      | Some (v # _) \<Rightarrow> v)"

text \<open>
  The loop \<^verbatim>\<open>for key, value := range headers { req.Header.Set(key, value) }\<close>, which
  \<^verbatim>\<open>Get\<close>, \<^verbatim>\<open>Post\<close>, \<^verbatim>\<open>Put\<close>, \<^verbatim>\<open>Delete\<close> and the header transport share, over the
  entries in the order they are visited.
\<close>

definition set_headers :: "(string \<times> string) list \<Rightarrow> Request \<Rightarrow> Request" where
  "set_headers kvs req =
     fold (\<lambda>(key, val) r. r\<lparr>Header := Header_Set (Header r) key val\<rparr>) kvs req"

subsection \<open>Transports\<close>

text \<open>
  \<^verbatim>\<open>*http.Transport\<close> values are pointers into a store of transport structs: the store is a
  list and an address is an index into it; allocating appends. The struct has some twenty
  fields; the model keeps \<^verbatim>\<open>TLSClientConfig\<close> (a \<^verbatim>\<open>*tls.Config\<close>, nil or the identity of a
  configuration) and a few of the others. \<^verbatim>\<open>&http.Transport{}\<close> has every field zero.
\<close>

type_synonym addr = nat

type_synonym tls_Config = nat

record http_Transport =
  TLSClientConfig :: "tls_Config option"
  DisableKeepAlives :: bool
  DisableCompression :: bool
  MaxIdleConns :: int
  IdleConnTimeout :: Duration

type_synonym store = "http_Transport list"

definition zero_Transport :: http_Transport where
  "zero_Transport = \<lparr>TLSClientConfig = None, DisableKeepAlives = False,
     DisableCompression = False, MaxIdleConns = 0, IdleConnTimeout = 0\<rparr>"

text \<open>
  An \<^verbatim>\<open>http.RoundTripper\<close> interface value: nil, a \<^verbatim>\<open>*http.Transport\<close> (itself possibly a
  nil pointer), a \<^verbatim>\<open>*headerTransport\<close> with its two fields \<^verbatim>\<open>base\<close> and \<^verbatim>\<open>headers\<close>, or a
  value of some other implementing type.
\<close>

datatype RoundTripper =
  NilRT
| TransportPtr "addr option"
| HeaderTransportPtr RoundTripper gomap
| CustomRT nat

record http_Client =
  Transport :: RoundTripper
  Timeout :: Duration

subsection \<open>The client (types.go)\<close>

text \<open>
  \<^verbatim>\<open>logger\<close> is a pointer and \<^verbatim>\<open>backoff\<close> a function value: both may be nil, which is
  \<open>None\<close>. \<^verbatim>\<open>client\<close> points to the wrapped \<^verbatim>\<open>http.Client\<close>, which the constructor
  always allocates.
\<close>

type_synonym Logger = nat

record HTTPClient =
  client :: http_Client
  retryCount :: int
  retryDelay :: Duration
  logger :: "Logger option"
  backoff :: "(int \<Rightarrow> Duration) option"

section \<open>The retry loop: \<^verbatim>\<open>Do\<close>\<close>

text \<open>
  What \<^verbatim>\<open>hc.client.Do(req)\<close> returns is decided outside the package. A run of \<^verbatim>\<open>Do\<close> is
  given a script \<open>tr\<close>: \<open>tr n\<close> is the outcome of the call number \<open>n\<close> (counted from 0) of
  \<^verbatim>\<open>hc.client.Do\<close>, either an error or a response.
\<close>

datatype outcome = Failed error | Responded Response

text \<open>
  The effects of \<^verbatim>\<open>Do\<close> are recorded in order: the lines given to the logger (by their
  format and arguments), the delays slept, the requests sent, the response bodies closed.
\<close>

datatype logline = LogRetry int int Duration | LogFailed error | LogNon2xx int

datatype event = EvLog logline | EvSleep Duration | EvSend Request | EvClose Response

text \<open>A call returns its results, or panics (here: a method called on a nil pointer).\<close>

datatype 'a result = Returned 'a | Panicked

text \<open>\<^verbatim>\<open>hc.logger.Printf(...)\<close>: a nil \<^verbatim>\<open>*log.Logger\<close> panics.\<close>

definition Printf :: "HTTPClient \<Rightarrow> logline \<Rightarrow> event list option" where
  "Printf hc l = (case logger hc of None \<Rightarrow> None | Some _ \<Rightarrow> Some [EvLog l])"

text \<open>
  Lines 96 to 103, the block under \<^verbatim>\<open>if i > 0\<close>: the delay is \<^verbatim>\<open>hc.retryDelay\<close>,
  replaced by \<^verbatim>\<open>hc.backoff(i)\<close> when \<^verbatim>\<open>hc.backoff != nil\<close>; it is logged, then slept.
\<close>

definition before_retry :: "HTTPClient \<Rightarrow> int \<Rightarrow> event list option" where
  "before_retry hc i =
     (if i > 0 then
        (let delay = (case backoff hc of Some f \<Rightarrow> f i | None \<Rightarrow> retryDelay hc)
         in case Printf hc (LogRetry i (retryCount hc) delay) of
              None \<Rightarrow> None
            | Some l \<Rightarrow> Some (l @ [EvSleep delay]))
      else Some [])"

text \<open>
  One pass through the loop body (lines 96 to 118), given the outcome of its send. It
  either leaves the function (\<open>Stop\<close>: a return or a panic) or goes to the next iteration
  with a new \<^verbatim>\<open>lastErr\<close> (\<open>Continue\<close>); both carry the events of the pass.
\<close>

datatype step =
  Continue error "event list"
| Stop "(Response option \<times> error option) result" "event list"

definition Do_attempt :: "HTTPClient \<Rightarrow> outcome \<Rightarrow> Request \<Rightarrow> int \<Rightarrow> step" where
  "Do_attempt hc out req i =
     (case before_retry hc i of
        None \<Rightarrow> Stop Panicked []
      | Some es \<Rightarrow>
         (case out of
            Failed err \<Rightarrow>
              (case Printf hc (LogFailed err) of
                 None \<Rightarrow> Stop Panicked (es @ [EvSend req])
               | Some l \<Rightarrow> Continue err (es @ [EvSend req] @ l))
          | Responded resp \<Rightarrow>
              if StatusCode resp \<ge> 200 \<and> StatusCode resp < 300
              then Stop (Returned (Some resp, None)) (es @ [EvSend req])
              else (case Printf hc (LogNon2xx (StatusCode resp)) of
                      None \<Rightarrow> Stop Panicked (es @ [EvSend req])
                    | Some l \<Rightarrow> Continue (ErrorsNew ''non-2xx response received'')
                                 (es @ [EvSend req] @ l @ [EvClose resp]))))"

text \<open>
  The loop \<^verbatim>\<open>for i := 0; i <= hc.retryCount; i++\<close>. \<open>n\<close> counts the sends made so far.
  Nothing bounds the loop when \<^verbatim>\<open>i++\<close> wraps, so it is a partial function: \<open>None\<close> is a
  run that never returns.
\<close>

partial_function (option) Do_loop ::
  "HTTPClient \<Rightarrow> (nat \<Rightarrow> outcome) \<Rightarrow> Request \<Rightarrow> int \<Rightarrow> nat \<Rightarrow> error option \<Rightarrow> event list
     \<Rightarrow> ((Response option \<times> error option) result \<times> event list) option" where
  "Do_loop hc tr req i n lastErr evs =
     (if i \<le> retryCount hc then
        (case Do_attempt hc (tr n) req i of
           Stop r es \<Rightarrow> Some (r, evs @ es)
         | Continue err es \<Rightarrow> Do_loop hc tr req (int_inc i) (Suc n) (Some err) (evs @ es))
      else Some (Returned (None, lastErr), evs))"

declare Do_loop.simps [code]

definition Do :: "HTTPClient \<Rightarrow> (nat \<Rightarrow> outcome) \<Rightarrow> Request
     \<Rightarrow> ((Response option \<times> error option) result \<times> event list) option" where
  "Do hc tr req = Do_loop hc tr req 0 0 None []"

text \<open>The number of send attempts of a run, and the delays it slept.\<close>

fun is_send :: "event \<Rightarrow> bool" where
  "is_send (EvSend _) = True"
| "is_send _ = False"

definition sends :: "event list \<Rightarrow> nat" where
  "sends evs = length (filter is_send evs)"

fun sleeps :: "event list \<Rightarrow> Duration list" where
  "sleeps [] = []"
| "sleeps (EvSleep d # evs) = d # sleeps evs"
| "sleeps (_ # evs) = sleeps evs"

text \<open>
  An attempt fails when it returns an error or a response with a status outside
  \<open>[200, 300)\<close>; the error \<^verbatim>\<open>Do\<close> records for it is the transport's error or the marker.
\<close>

fun fails :: "outcome \<Rightarrow> bool" where
  "fails (Failed _) = True"
| "fails (Responded resp) = (\<not> (StatusCode resp \<ge> 200 \<and> StatusCode resp < 300))"

fun err_of :: "outcome \<Rightarrow> error" where
  "err_of (Failed err) = err"
| "err_of (Responded _) = ErrorsNew ''non-2xx response received''"

section \<open>Exponential backoff\<close>

text \<open>
  \<^verbatim>\<open>time.Duration(float64(baseDelay) * math.Pow(2, float64(attempt-1)))\<close> goes through
  \<^verbatim>\<open>float64\<close>, the IEEE 754 double format with a significand of 53 bits.

  \<^verbatim>\<open>float64(n)\<close> of an integer is the nearest double, a tie going to the even significand.
  For an \<^verbatim>\<open>int64\<close> the result is again an integer: \<open>n\<close> itself below \<open>2^53\<close> in
  magnitude, and otherwise \<open>n\<close> with the bits under its leading 53 rounded away.
\<close>

function excess_bits :: "nat \<Rightarrow> nat" where
  "excess_bits a = (if a < 2 ^ 53 then 0 else Suc (excess_bits (a div 2)))"
  by pat_completeness auto
termination
  by (relation "measure (\<lambda>a. a)") auto

declare excess_bits.simps [simp del]

definition round_nearest_even :: "nat \<Rightarrow> nat \<Rightarrow> nat" where
  "round_nearest_even a e =
     (let q = a div 2 ^ e; r = a mod 2 ^ e
      in (if 2 * r > 2 ^ e \<or> (2 * r = 2 ^ e \<and> odd q) then q + 1 else q) * 2 ^ e)"

definition float64_of_int :: "int \<Rightarrow> int" where
  "float64_of_int n = sgn n * int (round_nearest_even (nat \<bar>n\<bar>) (excess_bits (nat \<bar>n\<bar>)))"

text \<open>
  \<^verbatim>\<open>attempt-1\<close> is computed on \<^verbatim>\<open>int\<close> and wraps. \<^verbatim>\<open>math.Pow(2, e)\<close> is the exact power of
  two for an integer \<open>e\<close> up to 1023 and \<open>+Inf\<close> above; multiplying a double by a power of
  two is exact as long as the result stays in the format. Converting the product to
  \<^verbatim>\<open>time.Duration\<close> discards the fraction (truncation towards zero); when the truncated value
  does not fit an \<^verbatim>\<open>int64\<close> the language leaves the result to the implementation, which is
  \<open>None\<close> here.
\<close>

definition int_dec :: "int \<Rightarrow> int" where
  "int_dec i = (if i = MinInt then MaxInt else i - 1)"

definition truncate_quotient :: "int \<Rightarrow> int \<Rightarrow> int" where
  "truncate_quotient x d = sgn x * (\<bar>x\<bar> div d)"

definition backoff_delay :: "Duration \<Rightarrow> int \<Rightarrow> Duration option" where
  "backoff_delay baseDelay attempt =
     (let e = int_dec attempt; x = float64_of_int baseDelay
      in if e > 1023 then None
         else let t = (if e \<ge> 0 then x * 2 ^ nat e else truncate_quotient x (2 ^ nat (- e)))
              in if MinInt \<le> t \<and> t \<le> MaxInt then Some t else None)"

section \<open>Options and the constructor\<close>

text \<open>
  An \<^verbatim>\<open>Option\<close> is a \<^verbatim>\<open>func(*HTTPClient)\<close>: it updates the client, and the store where it
  allocates or writes a transport. It may panic on a nil pointer.
\<close>

type_synonym Option = "HTTPClient \<times> store \<Rightarrow> (HTTPClient \<times> store) result"

definition WithRetry :: "int \<Rightarrow> Duration \<Rightarrow> Option" where
  "WithRetry rc rd = (\<lambda>(hc, st). Returned (hc\<lparr>retryCount := rc, retryDelay := rd\<rparr>, st))"

text \<open>
  The closure installed by \<^verbatim>\<open>WithExponentialBackoff\<close>. \<open>impl\<close> is the value the platform
  gives where the conversion to \<^verbatim>\<open>time.Duration\<close> is implementation-dependent.
\<close>

definition WithExponentialBackoff :: "(Duration \<Rightarrow> int \<Rightarrow> Duration) \<Rightarrow> Duration \<Rightarrow> Option" where
  "WithExponentialBackoff impl baseDelay =
     (\<lambda>(hc, st). Returned
        (hc\<lparr>backoff := Some (\<lambda>attempt.
              case backoff_delay baseDelay attempt of
                Some d \<Rightarrow> d
              | None \<Rightarrow> impl baseDelay attempt)\<rparr>, st))"

definition WithLogger :: "Logger option \<Rightarrow> Option" where
  "WithLogger l = (\<lambda>(hc, st). Returned (hc\<lparr>logger := l\<rparr>, st))"

definition WithTransport :: "RoundTripper \<Rightarrow> Option" where
  "WithTransport transport =
     (\<lambda>(hc, st). Returned (hc\<lparr>client := (client hc)\<lparr>Transport := transport\<rparr>\<rparr>, st))"

text \<open>
  \<^verbatim>\<open>WithTLSConfig\<close>: the type assertion \<^verbatim>\<open>hc.client.Transport.(*http.Transport)\<close> succeeds
  exactly on a \<^verbatim>\<open>*http.Transport\<close>, also on a nil one, where the write then dereferences
  nil. Otherwise a new transport is allocated.
\<close>

definition WithTLSConfig :: "tls_Config option \<Rightarrow> Option" where
  "WithTLSConfig tlsConfig =
     (\<lambda>(hc, st).
        case Transport (client hc) of
          TransportPtr (Some a) \<Rightarrow>
            Returned (hc, st[a := (st ! a)\<lparr>TLSClientConfig := tlsConfig\<rparr>])
        | TransportPtr None \<Rightarrow> Panicked
        | _ \<Rightarrow>
            Returned (hc\<lparr>client := (client hc)\<lparr>Transport := TransportPtr (Some (length st))\<rparr>\<rparr>,
                      st @ [zero_Transport\<lparr>TLSClientConfig := tlsConfig\<rparr>]))"

definition WithDefaultHeaders :: "gomap \<Rightarrow> Option" where
  "WithDefaultHeaders headers =
     (\<lambda>(hc, st).
        let (originalTransport, st') =
              (case Transport (client hc) of
                 NilRT \<Rightarrow> (TransportPtr (Some (length st)), st @ [zero_Transport])
               | t \<Rightarrow> (t, st))
        in Returned
             (hc\<lparr>client := (client hc)\<lparr>Transport := HeaderTransportPtr originalTransport headers\<rparr>\<rparr>,
              st'))"

definition WithTimeout :: "Duration \<Rightarrow> Option" where
  "WithTimeout timeout =
     (\<lambda>(hc, st). Returned (hc\<lparr>client := (client hc)\<lparr>Timeout := timeout\<rparr>\<rparr>, st))"

text \<open>
  \<^verbatim>\<open>NewHTTPClient\<close>: the initial client has a zero \<^verbatim>\<open>http.Client\<close>, the standard logger
  \<^verbatim>\<open>log.Default()\<close> and a backoff function that returns 0; the other fields are zero. The
  options are applied in order.
\<close>

definition log_Default :: Logger where
  "log_Default = 0"

definition initial_HTTPClient :: HTTPClient where
  "initial_HTTPClient =
     \<lparr>client = \<lparr>Transport = NilRT, Timeout = 0\<rparr>,
      retryCount = 0, retryDelay = 0,
      logger = Some log_Default,
      backoff = Some (\<lambda>attempt. 0)\<rparr>"

fun apply_options :: "Option list \<Rightarrow> HTTPClient \<times> store \<Rightarrow> (HTTPClient \<times> store) result" where
  "apply_options [] s = Returned s"
| "apply_options (opt # options) s =
     (case opt s of Panicked \<Rightarrow> Panicked | Returned s' \<Rightarrow> apply_options options s')"

definition NewHTTPClient :: "Option list \<Rightarrow> store \<Rightarrow> (HTTPClient \<times> store) result" where
  "NewHTTPClient options st = apply_options options (initial_HTTPClient, st)"

section \<open>The header transport\<close>

text \<open>
  \<^verbatim>\<open>headerTransport.RoundTrip\<close> sets its headers on the request and calls
  \<^verbatim>\<open>ht.base.RoundTrip(req)\<close>. The other transports belong to the standard library or to the
  caller: \<open>ext\<close> gives what their \<^verbatim>\<open>RoundTrip\<close> returns. A method call on a nil interface
  panics.
\<close>

fun RoundTrip ::
  "(RoundTripper \<Rightarrow> Request \<Rightarrow> outcome result) \<Rightarrow> visit \<Rightarrow> RoundTripper \<Rightarrow> Request
     \<Rightarrow> outcome result" where
  "RoundTrip ext visit (HeaderTransportPtr base headers) req =
     RoundTrip ext visit base (set_headers (range_over visit headers) req)"
| "RoundTrip ext visit NilRT req = Panicked"
| "RoundTrip ext visit rt req = ext rt req"

section \<open>Request helpers\<close>

text \<open>
  \<^verbatim>\<open>http.NewRequest\<close> fails when the URL does not parse (\<open>parse\<close> gives the parser's error)
  and otherwise makes a request with an empty header. The methods used here are valid.
\<close>

definition NewRequest ::
  "(string \<Rightarrow> error option) \<Rightarrow> string \<Rightarrow> string \<Rightarrow> string option \<Rightarrow> error + Request" where
  "NewRequest parse method url body =
     (case parse url of
        Some err \<Rightarrow> Inl err
      | None \<Rightarrow> Inr \<lparr>Method = method, URL = url, Header = Map.empty, req_Body = body\<rparr>)"

definition Post ::
  "HTTPClient \<Rightarrow> (string \<Rightarrow> error option) \<Rightarrow> visit \<Rightarrow> (nat \<Rightarrow> outcome)
     \<Rightarrow> string \<Rightarrow> string option \<Rightarrow> gomap
     \<Rightarrow> ((Response option \<times> error option) result \<times> event list) option" where
  "Post hc parse visit tr url body headers =
     (case NewRequest parse ''POST'' url body of
        Inl err \<Rightarrow> Some (Returned (None, Some err), [])
      | Inr req \<Rightarrow> Do hc tr (set_headers (range_over visit headers) req))"

text \<open>
  \<^verbatim>\<open>PostJSON\<close>. \<open>marshal\<close> is \<^verbatim>\<open>json.Marshal\<close>. A map is a reference: the write
  \<^verbatim>\<open>headers["Content-Type"] = ...\<close> goes to the caller's map unless the caller passed nil,
  in which case it goes to the map made here. The second component of the result is the
  caller's map after the call.
\<close>

definition PostJSON ::
  "HTTPClient \<Rightarrow> (string \<Rightarrow> error option) \<Rightarrow> ('v \<Rightarrow> error + string) \<Rightarrow> visit \<Rightarrow> (nat \<Rightarrow> outcome)
     \<Rightarrow> string \<Rightarrow> 'v \<Rightarrow> gomap
     \<Rightarrow> ((Response option \<times> error option) result \<times> event list) option \<times> gomap" where
  "PostJSON hc parse marshal visit tr url jsonBody headers =
     (let local = (case headers of None \<Rightarrow> Map.empty | Some m \<Rightarrow> m)
      in case marshal jsonBody of
           Inl err \<Rightarrow> (Some (Returned (None, Some err), []), headers)
         | Inr body \<Rightarrow>
             (let local' = local(''Content-Type'' \<mapsto> ''application/json'')
              in (Post hc parse visit tr url (Some body) (Some local'),
                  case headers of None \<Rightarrow> None | Some _ \<Rightarrow> Some local')))"

section \<open>Reading a JSON response\<close>




section \<open>Properties of the retry loop\<close>

lemma sends_append: "sends (xs @ ys) = sends xs + sends ys"
  by (simp add: sends_def)

text \<open>
  C9. With a negative \<^verbatim>\<open>retryCount\<close> the loop body never runs: \<^verbatim>\<open>Do\<close> sends nothing and
  returns a nil response with a nil error.
\<close>

theorem Do_negative_retryCount:
  "retryCount hc < 0 \<Longrightarrow>
     \<exists>evs. Do hc tr req = Some (Returned (None, None), evs) \<and> evs = [] \<and> sends evs = 0"
  by (simp add: Do_def Do_loop.simps sends_def)

theorem Do_negative_retryCount_witness:
  "retryCount \<lparr>client = \<lparr>Transport = NilRT, Timeout = 0\<rparr>, retryCount = - 1, retryDelay = 0, logger = Some 0, backoff = None\<rparr> < 0
   \<and> Do \<lparr>client = \<lparr>Transport = NilRT, Timeout = 0\<rparr>, retryCount = - 1, retryDelay = 0, logger = Some 0, backoff = None\<rparr>
        (\<lambda>_. Failed (LibError ''connection refused''))
        \<lparr>Method = ''GET'', URL = ''http://example.com'', Header = Map.empty, req_Body = None\<rparr>
      = Some (Returned (None, None), [])"
  using Do_negative_retryCount
    [of "\<lparr>client = \<lparr>Transport = NilRT, Timeout = 0\<rparr>, retryCount = - 1, retryDelay = 0, logger = Some 0, backoff = None\<rparr>"
        "\<lambda>_. Failed (LibError ''connection refused'')"
        "\<lparr>Method = ''GET'', URL = ''http://example.com'', Header = Map.empty, req_Body = None\<rparr>"]
  by (simp add: sends_def)

subsection \<open>Failing attempts\<close>

lemma Do_attempt_fails:
  assumes "logger hc \<noteq> None" "fails out"
  shows "\<exists>es. Do_attempt hc out req i = Continue (err_of out) es \<and> sends es = 1"
proof -
  obtain lg where lg: "logger hc = Some lg" using assms(1) by auto
  show ?thesis
    using assms(2)
    by (cases out) (auto simp: Do_attempt_def before_retry_def Printf_def lg sends_def Let_def)
qed

lemma Do_attempt_success:
  assumes "logger hc \<noteq> None" "StatusCode resp \<ge> 200" "StatusCode resp < 300"
  shows "\<exists>es. Do_attempt hc (Responded resp) req i = Stop (Returned (Some resp, None)) es
              \<and> sends es = 1"
proof -
  obtain lg where lg: "logger hc = Some lg" using assms(1) by auto
  show ?thesis
    using assms(2,3)
    by (auto simp: Do_attempt_def before_retry_def Printf_def lg sends_def Let_def)
qed

text \<open>
  \<open>j\<close> failing attempts in a row take the loop from iteration \<open>i\<close> to iteration \<open>i + j\<close>,
  with \<open>j\<close> more sends, as long as the counter stays within \<^verbatim>\<open>retryCount + 1\<close> and does
  not wrap.
\<close>

lemma Do_loop_failures:
  assumes "logger hc \<noteq> None"
    and "\<forall>m. n \<le> m \<and> m < n + j \<longrightarrow> fails (tr m)"
    and "i + int j \<le> retryCount hc + 1"
    and "i + int j \<le> MaxInt"
  shows "\<exists>es. Do_loop hc tr req i n lastErr evs
            = Do_loop hc tr req (i + int j) (n + j)
                (if j = 0 then lastErr else Some (err_of (tr (n + j - 1)))) (evs @ es)
          \<and> sends es = j"
  using assms(2-)
proof (induction j arbitrary: i n lastErr evs)
  case 0
  show ?case by (rule exI [of _ "[]"]) (simp add: sends_def)
next
  case (Suc j)
  have f: "fails (tr n)" using Suc.prems(1) by simp
  obtain es1 where es1:
    "Do_attempt hc (tr n) req i = Continue (err_of (tr n)) es1" "sends es1 = 1"
    using Do_attempt_fails [OF assms(1) f] by blast
  have inc: "int_inc i = i + 1" using Suc.prems(3) by (simp add: int_inc_def)
  have le: "i \<le> retryCount hc" using Suc.prems(2) by simp
  have step: "Do_loop hc tr req i n lastErr evs
      = Do_loop hc tr req (i + 1) (Suc n) (Some (err_of (tr n))) (evs @ es1)"
    by (subst Do_loop.simps) (simp add: le es1 inc)
  have "\<forall>m. Suc n \<le> m \<and> m < Suc n + j \<longrightarrow> fails (tr m)" using Suc.prems(1) by simp
  moreover have "(i + 1) + int j \<le> retryCount hc + 1" using Suc.prems(2) by simp
  moreover have "(i + 1) + int j \<le> MaxInt" using Suc.prems(3) by simp
  ultimately obtain es2 where es2:
    "Do_loop hc tr req (i + 1) (Suc n) (Some (err_of (tr n))) (evs @ es1)
      = Do_loop hc tr req (i + 1 + int j) (Suc n + j)
          (if j = 0 then Some (err_of (tr n)) else Some (err_of (tr (Suc n + j - 1))))
          ((evs @ es1) @ es2)"
    "sends es2 = j"
    using Suc.IH [of "Suc n" "i + 1" "Some (err_of (tr n))" "evs @ es1"] by blast
  have "Do_loop hc tr req i n lastErr evs
      = Do_loop hc tr req (i + int (Suc j)) (n + Suc j)
          (if Suc j = 0 then lastErr else Some (err_of (tr (n + Suc j - 1))))
          (evs @ (es1 @ es2))"
    using step es2(1) by (cases "j = 0") (simp_all add: ac_simps)
  moreover have "sends (es1 @ es2) = Suc j" by (simp add: sends_append es1 es2)
  ultimately show ?case by blast
qed

text \<open>
  With \<^verbatim>\<open>retryCount\<close> at the largest \<^verbatim>\<open>int\<close> the condition \<^verbatim>\<open>i <= hc.retryCount\<close> holds
  for every \<^verbatim>\<open>int\<close>: against a transport that always fails, no run of the loop returns.
\<close>

lemma Do_loop_MaxInt_returns_not:
  assumes "Do_loop hc tr req i n lastErr evs = Some y"
  shows "\<not> (retryCount hc = MaxInt \<and> logger hc \<noteq> None \<and> (\<forall>m. fails (tr m)) \<and> i \<le> MaxInt)"
proof (rule Do_loop.raw_induct
    [where P = "\<lambda>hc tr req i n lastErr evs y.
        \<not> (retryCount hc = MaxInt \<and> logger hc \<noteq> None \<and> (\<forall>m. fails (tr m)) \<and> i \<le> MaxInt)",
     OF _ assms], goal_cases)
  case (1 f hc tr req i n lastErr evs y)
  show ?case
  proof
    assume inv: "retryCount hc = MaxInt \<and> logger hc \<noteq> None \<and> (\<forall>m. fails (tr m)) \<and> i \<le> MaxInt"
    then obtain es1 where es1: "Do_attempt hc (tr n) req i = Continue (err_of (tr n)) es1"
      using Do_attempt_fails [of hc "tr n" req i] by blast
    have "f hc tr req (int_inc i) (Suc n) (Some (err_of (tr n))) (evs @ es1) = Some y"
      using 1(2) inv es1 by simp
    from 1(1) [OF this] inv have "\<not> int_inc i \<le> MaxInt" by simp
    then show False
      using inv by (simp add: int_inc_def MinInt_def MaxInt_def split: if_splits)
  qed
qed

lemma Do_MaxInt_diverges:
  assumes "retryCount hc = MaxInt" "logger hc \<noteq> None" "\<forall>n. fails (tr n)"
  shows "Do hc tr req = None"
proof (cases "Do hc tr req")
  case None
  then show ?thesis .
next
  case (Some y)
  then have "Do_loop hc tr req 0 0 None [] = Some y" by (simp add: Do_def)
  from Do_loop_MaxInt_returns_not [OF this] assms show ?thesis by (simp add: MaxInt_def)
qed

text \<open>
  C1, as the spec states it, for every \<open>N \<ge> 0\<close>: it fails at the largest \<^verbatim>\<open>int\<close>. A client
  with \<^verbatim>\<open>retryCount = 9223372036854775807\<close> whose every attempt is refused does not
  return at all, so it returns no error after \<open>N + 1\<close> sends.
\<close>

theorem Do_persistent_failure_MaxInt_counterexample:
  "\<not> (\<exists>err evs.
        Do \<lparr>client = \<lparr>Transport = NilRT, Timeout = 0\<rparr>, retryCount = 9223372036854775807,
            retryDelay = 0, logger = Some 0, backoff = None\<rparr>
           (\<lambda>_. Failed (LibError ''connection refused''))
           \<lparr>Method = ''GET'', URL = ''http://example.com'', Header = Map.empty, req_Body = None\<rparr>
         = Some (Returned (None, Some err), evs)
        \<and> sends evs = 9223372036854775807 + 1)"
proof -
  have "Do \<lparr>client = \<lparr>Transport = NilRT, Timeout = 0\<rparr>, retryCount = 9223372036854775807,
            retryDelay = 0, logger = Some 0, backoff = None\<rparr>
           (\<lambda>_. Failed (LibError ''connection refused''))
           \<lparr>Method = ''GET'', URL = ''http://example.com'', Header = Map.empty, req_Body = None\<rparr>
        = None"
    by (rule Do_MaxInt_diverges) (simp_all add: MaxInt_def)
  then show ?thesis by simp
qed

text \<open>
  C1, amended: for \<open>0 \<le> N\<close> below the largest \<^verbatim>\<open>int\<close>, a client with \<^verbatim>\<open>retryCount = N\<close>
  and a logger, against a transport whose every attempt fails, makes exactly \<open>N + 1\<close> sends
  and returns a nil response with the error of the last attempt: the transport's error, or
  the marker \<^verbatim>\<open>non-2xx response received\<close>.
\<close>

theorem Do_persistent_failure:
  assumes "0 \<le> N" "N < MaxInt" "retryCount hc = N" "logger hc \<noteq> None"
    and "\<forall>n. fails (tr n)"
  shows "\<exists>evs. Do hc tr req = Some (Returned (None, Some (err_of (tr (nat N)))), evs)
               \<and> sends evs = nat N + 1"
proof -
  obtain es where es:
    "Do_loop hc tr req 0 0 None []
       = Do_loop hc tr req (0 + int (nat N + 1)) (0 + (nat N + 1))
           (if nat N + 1 = 0 then None else Some (err_of (tr (0 + (nat N + 1) - 1)))) ([] @ es)"
    "sends es = nat N + 1"
    using Do_loop_failures [OF assms(4), of 0 "nat N + 1" tr 0 req None "[]"] assms(1,2,3,5)
    by auto
  have "Do_loop hc tr req (0 + int (nat N + 1)) (0 + (nat N + 1))
           (if nat N + 1 = 0 then None else Some (err_of (tr (0 + (nat N + 1) - 1)))) ([] @ es)
        = Some (Returned (None, Some (err_of (tr (nat N)))), es)"
    using assms(1,3) by (subst Do_loop.simps) simp
  then show ?thesis using es by (auto simp: Do_def)
qed

theorem Do_persistent_failure_witness:
  "\<exists>evs. Do \<lparr>client = \<lparr>Transport = NilRT, Timeout = 0\<rparr>, retryCount = 2, retryDelay = 5,
             logger = Some 0, backoff = None\<rparr>
          (\<lambda>n. if n = 2 then Responded \<lparr>StatusCode = 503, Body = \<lparr>unread = ''busy'', closed = False\<rparr>\<rparr>
                else Failed (LibError ''connection refused''))
          \<lparr>Method = ''GET'', URL = ''http://example.com'', Header = Map.empty, req_Body = None\<rparr>
        = Some (Returned (None, Some (ErrorsNew ''non-2xx response received'')), evs)
      \<and> sends evs = 3"
  using Do_persistent_failure
    [of 2 "\<lparr>client = \<lparr>Transport = NilRT, Timeout = 0\<rparr>, retryCount = 2, retryDelay = 5,
             logger = Some 0, backoff = None\<rparr>"
        "\<lambda>n. if n = 2 then Responded \<lparr>StatusCode = 503, Body = \<lparr>unread = ''busy'', closed = False\<rparr>\<rparr>
                else Failed (LibError ''connection refused'')"
        "\<lparr>Method = ''GET'', URL = ''http://example.com'', Header = Map.empty, req_Body = None\<rparr>"]
  by (simp add: MaxInt_def)

lemma Do_attempt_first_success:
  assumes "StatusCode resp \<ge> 200" "StatusCode resp < 300"
  shows "Do_attempt hc (Responded resp) req 0 = Stop (Returned (Some resp, None)) [EvSend req]"
  using assms by (simp add: Do_attempt_def before_retry_def)

text \<open>
  C3, as stated, for every client: it fails for a client without a logger as soon as an
  attempt fails before the successful one. The client made by
  \<^verbatim>\<open>NewHTTPClient(WithRetry(1, 0), WithLogger(nil))\<close>, against a transport that answers 500
  and then 200, panics in \<^verbatim>\<open>hc.logger.Printf\<close> after the first send: the second attempt
  (\<open>k = 2 \<le> N + 1\<close>) is never made and no response is returned.
\<close>

theorem Do_first_success_nil_logger_counterexample:
  "\<exists>hc st.
      NewHTTPClient [WithRetry 1 0, WithLogger None] [] = Returned (hc, st)
    \<and> retryCount hc = 1
    \<and> Do hc
         (\<lambda>n. if n = 0
               then Responded \<lparr>StatusCode = 500, Body = \<lparr>unread = ''Temporary error'', closed = False\<rparr>\<rparr>
               else Responded \<lparr>StatusCode = 200, Body = \<lparr>unread = ''OK'', closed = False\<rparr>\<rparr>)
         \<lparr>Method = ''GET'', URL = ''http://example.com'', Header = Map.empty, req_Body = None\<rparr>
       = Some (Panicked,
               [EvSend \<lparr>Method = ''GET'', URL = ''http://example.com'', Header = Map.empty,
                        req_Body = None\<rparr>])
    \<and> \<not> (\<exists>evs.
          Do hc
            (\<lambda>n. if n = 0
                  then Responded \<lparr>StatusCode = 500, Body = \<lparr>unread = ''Temporary error'', closed = False\<rparr>\<rparr>
                  else Responded \<lparr>StatusCode = 200, Body = \<lparr>unread = ''OK'', closed = False\<rparr>\<rparr>)
            \<lparr>Method = ''GET'', URL = ''http://example.com'', Header = Map.empty, req_Body = None\<rparr>
          = Some (Returned (Some \<lparr>StatusCode = 200, Body = \<lparr>unread = ''OK'', closed = False\<rparr>\<rparr>,
                            None), evs)
          \<and> sends evs = 2)"
  by (simp add: NewHTTPClient_def WithRetry_def WithLogger_def initial_HTTPClient_def Do_def
      Do_loop.simps Do_attempt_def before_retry_def Printf_def)

text \<open>
  C3, amended: for a client with \<^verbatim>\<open>retryCount = N\<close> (an \<^verbatim>\<open>int\<close>) whose logger is not nil,
  or whose first attempt is the successful one (\<open>k = 1\<close>, where nothing is logged): when
  attempt number \<open>k\<close> (counted from 1, \<open>k \<le> N + 1\<close>) is the first whose response has a
  status in \<open>[200, 300)\<close>, \<^verbatim>\<open>Do\<close> returns that response with a nil error, and the run has
  made exactly \<open>k\<close> sends.
\<close>

theorem Do_first_success:
  assumes "1 \<le> k" "int k \<le> N + 1" "N \<le> MaxInt" "retryCount hc = N"
    and "1 < k \<longrightarrow> logger hc \<noteq> None"
    and "\<forall>m < k - 1. fails (tr m)"
    and "tr (k - 1) = Responded resp" "StatusCode resp \<ge> 200" "StatusCode resp < 300"
  shows "\<exists>evs. Do hc tr req = Some (Returned (Some resp, None), evs) \<and> sends evs = k"
proof (cases "k = 1")
  case True
  have "0 \<le> retryCount hc" using assms(2,4) True by simp
  moreover have "tr 0 = Responded resp" using assms(7) True by simp
  ultimately have "Do hc tr req = Some (Returned (Some resp, None), [EvSend req])"
    unfolding Do_def
    by (subst Do_loop.simps) (simp add: Do_attempt_first_success [OF assms(8,9)])
  then show ?thesis using True by (simp add: sends_def)
next
  case False
  then have lg: "logger hc \<noteq> None" using assms(1,5) by simp
  let ?j = "k - 1"
  obtain es where es:
    "Do_loop hc tr req 0 0 None []
       = Do_loop hc tr req (0 + int ?j) (0 + ?j)
           (if ?j = 0 then None else Some (err_of (tr (0 + ?j - 1)))) ([] @ es)"
    "sends es = ?j"
    using Do_loop_failures [OF lg, of 0 ?j tr 0 req None "[]"] assms(1,2,3,4,6)
    by auto
  obtain es1 where es1:
    "Do_attempt hc (Responded resp) req (int ?j) = Stop (Returned (Some resp, None)) es1"
    "sends es1 = 1"
    using Do_attempt_success [OF lg assms(8,9)] by blast
  have "int ?j \<le> retryCount hc" using assms(1,2,4) by simp
  then have "Do_loop hc tr req (0 + int ?j) (0 + ?j)
           (if ?j = 0 then None else Some (err_of (tr (0 + ?j - 1)))) ([] @ es)
        = Some (Returned (Some resp, None), es @ es1)"
    using assms(7) es1(1) by (subst Do_loop.simps) simp
  moreover have "sends (es @ es1) = k" using es(2) es1(2) assms(1) by (simp add: sends_append)
  ultimately show ?thesis using es(1) by (auto simp: Do_def)
qed

theorem Do_first_success_witness:
  "(\<exists>evs. Do \<lparr>client = \<lparr>Transport = NilRT, Timeout = 0\<rparr>, retryCount = 3, retryDelay = 0,
             logger = Some 0, backoff = None\<rparr>
          (\<lambda>n. if n < 2 then Responded \<lparr>StatusCode = 500, Body = \<lparr>unread = ''Temporary error'', closed = False\<rparr>\<rparr>
                else Responded \<lparr>StatusCode = 200, Body = \<lparr>unread = ''OK'', closed = False\<rparr>\<rparr>)
          \<lparr>Method = ''GET'', URL = ''http://example.com'', Header = Map.empty, req_Body = None\<rparr>
        = Some (Returned (Some \<lparr>StatusCode = 200, Body = \<lparr>unread = ''OK'', closed = False\<rparr>\<rparr>, None), evs)
      \<and> sends evs = 3)
   \<and> (\<exists>evs. Do \<lparr>client = \<lparr>Transport = NilRT, Timeout = 0\<rparr>, retryCount = 0, retryDelay = 0,
             logger = None, backoff = None\<rparr>
          (\<lambda>n. Responded \<lparr>StatusCode = 200, Body = \<lparr>unread = ''OK'', closed = False\<rparr>\<rparr>)
          \<lparr>Method = ''GET'', URL = ''http://example.com'', Header = Map.empty, req_Body = None\<rparr>
        = Some (Returned (Some \<lparr>StatusCode = 200, Body = \<lparr>unread = ''OK'', closed = False\<rparr>\<rparr>, None), evs)
      \<and> sends evs = 1)"
  using Do_first_success
    [of 3 3 "\<lparr>client = \<lparr>Transport = NilRT, Timeout = 0\<rparr>, retryCount = 3, retryDelay = 0,
             logger = Some 0, backoff = None\<rparr>"
        "\<lambda>n. if n < 2 then Responded \<lparr>StatusCode = 500, Body = \<lparr>unread = ''Temporary error'', closed = False\<rparr>\<rparr>
                else Responded \<lparr>StatusCode = 200, Body = \<lparr>unread = ''OK'', closed = False\<rparr>\<rparr>"
        "\<lparr>StatusCode = 200, Body = \<lparr>unread = ''OK'', closed = False\<rparr>\<rparr>"
        "\<lparr>Method = ''GET'', URL = ''http://example.com'', Header = Map.empty, req_Body = None\<rparr>"]
    Do_first_success
    [of 1 0 "\<lparr>client = \<lparr>Transport = NilRT, Timeout = 0\<rparr>, retryCount = 0, retryDelay = 0,
             logger = None, backoff = None\<rparr>"
        "\<lambda>n. Responded \<lparr>StatusCode = 200, Body = \<lparr>unread = ''OK'', closed = False\<rparr>\<rparr>"
        "\<lparr>StatusCode = 200, Body = \<lparr>unread = ''OK'', closed = False\<rparr>\<rparr>"
        "\<lparr>Method = ''GET'', URL = ''http://example.com'', Header = Map.empty, req_Body = None\<rparr>"]
  by (simp add: MaxInt_def)

section \<open>Properties of the delay\<close>

text \<open>
  C2. The claim is that a client on which no backoff option was applied waits the fixed
  \<^verbatim>\<open>retryDelay\<close> before each retry. The constructor installs a backoff function that
  returns 0, and \<^verbatim>\<open>Do\<close> prefers a non-nil backoff function to \<^verbatim>\<open>retryDelay\<close>: the client
  made by \<^verbatim>\<open>NewHTTPClient(WithRetry(1, time.Second))\<close> keeps \<^verbatim>\<open>retryDelay\<close> at one second,
  and against a transport that refuses every attempt it sleeps once, for 0.
\<close>

theorem Do_after_WithRetry_sleeps_zero:
  "\<exists>hc st evs.
      NewHTTPClient [WithRetry 1 1000000000] [] = Returned (hc, st)
    \<and> retryDelay hc = 1000000000
    \<and> Do hc (\<lambda>_. Failed (LibError ''connection refused''))
         \<lparr>Method = ''GET'', URL = ''http://example.com'', Header = Map.empty, req_Body = None\<rparr>
       = Some (Returned (None, Some (LibError ''connection refused'')), evs)
    \<and> sleeps evs = [0]"
  by (simp add: NewHTTPClient_def WithRetry_def initial_HTTPClient_def Do_def Do_loop.simps
      Do_attempt_def before_retry_def Printf_def int_inc_def MaxInt_def)

lemma excess_bits_small: "a < 2 ^ 53 \<Longrightarrow> excess_bits a = 0"
  by (simp add: excess_bits.simps)

lemma round_nearest_even_0: "round_nearest_even a 0 = a"
  by (simp add: round_nearest_even_def)

lemma float64_of_int_small:
  assumes "\<bar>n\<bar> < 2 ^ 53"
  shows "float64_of_int n = n"
proof -
  have "nat \<bar>n\<bar> < 2 ^ 53" using assms by (simp add: nat_less_iff)
  then have "excess_bits (nat \<bar>n\<bar>) = 0" by (rule excess_bits_small)
  then show ?thesis
    by (simp add: float64_of_int_def round_nearest_even_0 sgn_if)
qed

text \<open>
  C4, as the spec states it, for every base delay: it fails above \<open>2^53\<close>, where
  \<^verbatim>\<open>float64(baseDelay)\<close> rounds. With the base delay \<open>2^53 + 1\<close> nanoseconds the function
  installed by \<^verbatim>\<open>WithExponentialBackoff\<close> returns \<open>2^53\<close> for attempt 1.
\<close>

theorem WithExponentialBackoff_rounding_counterexample:
  "(case WithExponentialBackoff (\<lambda>_ _. 0) 9007199254740993 (initial_HTTPClient, []) of
      Panicked \<Rightarrow> False
    | Returned (hc, st) \<Rightarrow>
        (case backoff hc of
           None \<Rightarrow> False
         | Some f \<Rightarrow> f 1 = 9007199254740992 \<and> f 1 \<noteq> 9007199254740993 * 2 ^ nat (1 - 1)))"
proof -
  have "excess_bits 9007199254740993 = 1"
    by (simp add: excess_bits.simps)
  then have "float64_of_int 9007199254740993 = 9007199254740992"
    by (simp add: float64_of_int_def round_nearest_even_def)
  then have "backoff_delay 9007199254740993 1 = Some 9007199254740992"
    by (simp add: backoff_delay_def int_dec_def MinInt_def MaxInt_def)
  then show ?thesis
    by (simp add: WithExponentialBackoff_def)
qed

text \<open>
  C4, amended: when the base delay \<open>B\<close> is a value of \<^verbatim>\<open>float64\<close> (every \<open>B\<close> below \<open>2^53\<close>
  in magnitude is), the attempt index \<open>i\<close> is between 1 and 1024, and \<open>B * 2^(i-1)\<close> is an
  \<^verbatim>\<open>int64\<close>, the installed backoff function returns exactly \<open>B * 2^(i-1)\<close> for \<open>i\<close>.
\<close>

theorem WithExponentialBackoff_exact:
  assumes "float64_of_int B = B" "1 \<le> i" "i \<le> 1024"
    and "MinInt \<le> B * 2 ^ nat (i - 1)" "B * 2 ^ nat (i - 1) \<le> MaxInt"
  shows "\<exists>f. WithExponentialBackoff impl B (hc, st) = Returned (hc\<lparr>backoff := Some f\<rparr>, st)
            \<and> f i = B * 2 ^ nat (i - 1)"
proof -
  have "int_dec i = i - 1" using assms(2) by (simp add: int_dec_def MinInt_def)
  then have "backoff_delay B i = Some (B * 2 ^ nat (i - 1))"
    using assms by (simp add: backoff_delay_def Let_def)
  then show ?thesis
    by (intro exI [of _ "\<lambda>attempt. case backoff_delay B attempt of
                            Some d \<Rightarrow> d | None \<Rightarrow> impl B attempt"])
       (simp add: WithExponentialBackoff_def)
qed

theorem WithExponentialBackoff_exact_witness:
  "\<exists>f. WithExponentialBackoff (\<lambda>_ _. 0) 100000000 (initial_HTTPClient, [])
         = Returned (initial_HTTPClient\<lparr>backoff := Some f\<rparr>, [])
       \<and> f 3 = 400000000"
proof -
  have "float64_of_int 100000000 = 100000000"
    by (rule float64_of_int_small) simp
  from WithExponentialBackoff_exact [OF this, of 3 "\<lambda>_ _. 0" initial_HTTPClient "[]"]
  show ?thesis by (simp add: MinInt_def MaxInt_def)
qed

section \<open>Properties of the options\<close>

text \<open>
  C6, as stated, for every client: it fails when the current transport is a
  \<^verbatim>\<open>*http.Transport\<close> that is nil, as after \<^verbatim>\<open>WithTransport((*http.Transport)(nil))\<close>. The
  type assertion of \<^verbatim>\<open>WithTLSConfig\<close> succeeds on it and the write to its field panics: the
  transport is neither replaced by a new one nor changed in place.
\<close>

theorem WithTLSConfig_nil_Transport_counterexample:
  "(\<exists>hc. NewHTTPClient [WithTransport (TransportPtr None)] [] = Returned (hc, [])
         \<and> Transport (client hc) = TransportPtr None
         \<and> WithTLSConfig (Some 7) (hc, []) = Panicked)
   \<and> NewHTTPClient [WithTransport (TransportPtr None), WithTLSConfig (Some 7)] [] = Panicked"
  by (simp add: NewHTTPClient_def WithTransport_def WithTLSConfig_def initial_HTTPClient_def)

text \<open>
  C6, amended. When the current transport is not a \<^verbatim>\<open>*http.Transport\<close> (it is nil, a header
  transport or another implementation), \<^verbatim>\<open>WithTLSConfig\<close> installs a pointer to a newly
  allocated transport whose only non-zero field is the TLS configuration; the transport
  installed before is no longer referred to by the client, and the store's old cells are as
  they were. When the current transport is a pointer, not nil, to a transport of the store,
  \<^verbatim>\<open>WithTLSConfig\<close> leaves the client as it is and writes the TLS configuration into that
  transport, changing no other field and no other cell.
\<close>

theorem WithTLSConfig_replaces_or_mutates:
  "((\<forall>p. Transport (client hc) \<noteq> TransportPtr p) \<longrightarrow>
      WithTLSConfig cfg (hc, st)
        = Returned (hc\<lparr>client := (client hc)\<lparr>Transport := TransportPtr (Some (length st))\<rparr>\<rparr>,
                    st @ [zero_Transport\<lparr>TLSClientConfig := cfg\<rparr>]))
   \<and> (Transport (client hc) = TransportPtr (Some a) \<and> a < length st \<longrightarrow>
        (\<exists>st'. WithTLSConfig cfg (hc, st) = Returned (hc, st')
            \<and> length st' = length st
            \<and> st' ! a = (st ! a)\<lparr>TLSClientConfig := cfg\<rparr>
            \<and> (\<forall>b < length st. b \<noteq> a \<longrightarrow> st' ! b = st ! b)))"
proof (intro conjI impI)
  assume "\<forall>p. Transport (client hc) \<noteq> TransportPtr p"
  then show "WithTLSConfig cfg (hc, st)
        = Returned (hc\<lparr>client := (client hc)\<lparr>Transport := TransportPtr (Some (length st))\<rparr>\<rparr>,
                    st @ [zero_Transport\<lparr>TLSClientConfig := cfg\<rparr>])"
    by (cases "Transport (client hc)") (simp_all add: WithTLSConfig_def)
next
  assume "Transport (client hc) = TransportPtr (Some a) \<and> a < length st"
  then show "\<exists>st'. WithTLSConfig cfg (hc, st) = Returned (hc, st')
            \<and> length st' = length st
            \<and> st' ! a = (st ! a)\<lparr>TLSClientConfig := cfg\<rparr>
            \<and> (\<forall>b < length st. b \<noteq> a \<longrightarrow> st' ! b = st ! b)"
    by (simp add: WithTLSConfig_def)
qed

theorem WithTLSConfig_replaces_or_mutates_witness:
  "(\<exists>hc st. NewHTTPClient [WithDefaultHeaders (Some [''X-App'' \<mapsto> ''myapp'']), WithTLSConfig (Some 7)] []
              = Returned (hc, st)
      \<and> Transport (client hc) = TransportPtr (Some 1)
      \<and> st = [zero_Transport, zero_Transport\<lparr>TLSClientConfig := Some 7\<rparr>])
   \<and> (\<exists>hc. WithTLSConfig (Some 7)
              (initial_HTTPClient\<lparr>client := \<lparr>Transport = TransportPtr (Some 0), Timeout = 0\<rparr>\<rparr>,
               [zero_Transport\<lparr>MaxIdleConns := 10\<rparr>])
            = Returned (hc, [zero_Transport\<lparr>MaxIdleConns := 10, TLSClientConfig := Some 7\<rparr>])
          \<and> Transport (client hc) = TransportPtr (Some 0))"
proof -
  let ?h = "Some [''X-App'' \<mapsto> ''myapp'']"
  let ?hc1 = "initial_HTTPClient\<lparr>client := \<lparr>Transport = HeaderTransportPtr (TransportPtr (Some 0)) ?h, Timeout = 0\<rparr>\<rparr>"
  let ?hc2 = "initial_HTTPClient\<lparr>client := \<lparr>Transport = TransportPtr (Some 0), Timeout = 0\<rparr>\<rparr>"
  have 1: "WithDefaultHeaders ?h (initial_HTTPClient, []) = Returned (?hc1, [zero_Transport])"
    by (simp add: WithDefaultHeaders_def initial_HTTPClient_def)
  have 2: "WithTLSConfig (Some 7) (?hc1, [zero_Transport])
     = Returned (?hc1\<lparr>client := (client ?hc1)\<lparr>Transport := TransportPtr (Some (length [zero_Transport]))\<rparr>\<rparr>,
                 [zero_Transport] @ [zero_Transport\<lparr>TLSClientConfig := Some 7\<rparr>])"
    using WithTLSConfig_replaces_or_mutates [of ?hc1 "Some 7" "[zero_Transport]" 0]
    by simp
  have 3: "\<exists>st'. WithTLSConfig (Some 7) (?hc2, [zero_Transport\<lparr>MaxIdleConns := 10\<rparr>]) = Returned (?hc2, st')
            \<and> length st' = 1 \<and> st' ! 0 = zero_Transport\<lparr>MaxIdleConns := 10, TLSClientConfig := Some 7\<rparr>"
    using WithTLSConfig_replaces_or_mutates [of ?hc2 "Some 7" "[zero_Transport\<lparr>MaxIdleConns := 10\<rparr>]" 0]
    by simp
  then obtain st' where st': "WithTLSConfig (Some 7) (?hc2, [zero_Transport\<lparr>MaxIdleConns := 10\<rparr>]) = Returned (?hc2, st')"
    "length st' = 1" "st' ! 0 = zero_Transport\<lparr>MaxIdleConns := 10, TLSClientConfig := Some 7\<rparr>"
    by blast
  then have "st' = [zero_Transport\<lparr>MaxIdleConns := 10, TLSClientConfig := Some 7\<rparr>]"
    by (cases st') simp_all
  with st'(1) have 4: "\<exists>hc. WithTLSConfig (Some 7) (?hc2, [zero_Transport\<lparr>MaxIdleConns := 10\<rparr>])
            = Returned (hc, [zero_Transport\<lparr>MaxIdleConns := 10, TLSClientConfig := Some 7\<rparr>])
          \<and> Transport (client hc) = TransportPtr (Some 0)"
    by simp
  show ?thesis
    using 1 2 4 by (simp add: NewHTTPClient_def)
qed

section \<open>Properties of the JSON helpers\<close>



text \<open>
  C10, as stated, for every non-nil map: it fails when the value does not serialise.
  \<^verbatim>\<open>PostJSON\<close> returns the encoder's error before the write to the map, and the caller's
  map, here \<^verbatim>\<open>{"Accept": "text/plain"}\<close>, has no \<^verbatim>\<open>Content-Type\<close> entry afterwards.
\<close>

theorem PostJSON_unserializable_map_counterexample:
  "(case PostJSON initial_HTTPClient (\<lambda>_. None)
           (\<lambda>_. Inl (LibError ''json: unsupported type: chan int'')) (\<lambda>_. [])
           (\<lambda>_. Failed (LibError ''connection refused''))
           ''http://example.com'' () (Some [''Accept'' \<mapsto> ''text/plain''])
    of (r, headers) \<Rightarrow>
         r = Some (Returned (None, Some (LibError ''json: unsupported type: chan int'')), [])
       \<and> entries headers ''Content-Type'' = None
       \<and> entries headers ''Content-Type'' \<noteq> Some ''application/json'')"
  by (simp add: PostJSON_def entries_def)

text \<open>
  C10, amended: for every non-nil map of the caller and every value that serialises,
  the caller's map after \<^verbatim>\<open>PostJSON\<close> is the map before with \<^verbatim>\<open>Content-Type\<close> set to
  \<^verbatim>\<open>application/json\<close>, every other entry unchanged.
\<close>

theorem PostJSON_writes_callers_map:
  assumes "headers = Some m" "marshal jsonBody = Inr body"
  shows "snd (PostJSON hc parse marshal visit tr url jsonBody headers)
           = Some (m(''Content-Type'' \<mapsto> ''application/json''))"
  using assms by (simp add: PostJSON_def Let_def)

theorem PostJSON_writes_callers_map_witness:
  "snd (PostJSON initial_HTTPClient (\<lambda>_. None) (\<lambda>_. Inr ''{}'') (\<lambda>_. [])
          (\<lambda>_. Failed (LibError ''connection refused''))
          ''http://example.com'' () (Some [''Content-Type'' \<mapsto> ''text/plain'']))
     = Some [''Content-Type'' \<mapsto> ''application/json'']"
  using PostJSON_writes_callers_map
    [of "Some [''Content-Type'' \<mapsto> ''text/plain'']" "[''Content-Type'' \<mapsto> ''text/plain'']"
        "\<lambda>_. Inr ''{}''" "()" "''{}''" initial_HTTPClient "\<lambda>_. None" "\<lambda>_. []"
        "\<lambda>_. Failed (LibError ''connection refused'')" "''http://example.com''"]
  by simp


section \<open>Properties of the header loop\<close>

lemma set_headers_Header:
  "Header (set_headers kvs req) = fold (\<lambda>(key, val) h. Header_Set h key val) kvs (Header req)"
  unfolding set_headers_def
  by (induction kvs arbitrary: req) (simp_all add: case_prod_beta)

lemma set_headers_frame:
  "Method (set_headers kvs req) = Method req \<and> URL (set_headers kvs req) = URL req
   \<and> req_Body (set_headers kvs req) = req_Body req"
  unfolding set_headers_def
  by (induction kvs arbitrary: req) (simp_all add: case_prod_beta)

text \<open>A canonical key that no visited entry writes keeps its values.\<close>

lemma fold_Header_Set_other:
  assumes "\<forall>(key, val) \<in> set kvs. CanonicalMIMEHeaderKey key \<noteq> c"
  shows "fold (\<lambda>(key, val) h. Header_Set h key val) kvs h c = h c"
  using assms
  by (induction kvs arbitrary: h) (auto simp: Header_Set_def)

text \<open>
  An entry whose canonical key no other visited entry shares is what the header holds
  under that key after the loop.
\<close>

lemma fold_Header_Set_entry:
  assumes "distinct (map fst kvs)" "(k, v) \<in> set kvs"
    and "\<forall>(key, val) \<in> set kvs. key \<noteq> k \<longrightarrow> CanonicalMIMEHeaderKey key \<noteq> CanonicalMIMEHeaderKey k"
  shows "fold (\<lambda>(key, val) h. Header_Set h key val) kvs h (CanonicalMIMEHeaderKey k) = Some [v]"
  using assms
proof (induction kvs arbitrary: h)
  case Nil
  then show ?case by simp
next
  case (Cons p kvs)
  obtain a b where p: "p = (a, b)" by (cases p)
  show ?case
  proof (cases "a = k")
    case True
    have "k \<notin> fst ` set kvs" using Cons.prems(1) p True by simp
    then have nk: "\<forall>(key, val) \<in> set kvs. key \<noteq> k" by force
    then have b: "b = v" using Cons.prems(2) p True by auto
    have "\<forall>(key, val) \<in> set kvs. CanonicalMIMEHeaderKey key \<noteq> CanonicalMIMEHeaderKey k"
      using Cons.prems(3) nk by auto
    then have "fold (\<lambda>(key, val) h. Header_Set h key val) kvs (Header_Set h k v)
                 (CanonicalMIMEHeaderKey k)
               = Header_Set h k v (CanonicalMIMEHeaderKey k)"
      by (rule fold_Header_Set_other)
    also have "\<dots> = Some [v]" by (simp add: Header_Set_def)
    finally show ?thesis by (simp add: p True b)
  next
    case False
    then have "(k, v) \<in> set kvs" using Cons.prems(2) p by simp
    moreover have "distinct (map fst kvs)" using Cons.prems(1) by simp
    moreover have "\<forall>(key, val) \<in> set kvs. key \<noteq> k
        \<longrightarrow> CanonicalMIMEHeaderKey key \<noteq> CanonicalMIMEHeaderKey k"
      using Cons.prems(3) by simp
    ultimately show ?thesis using Cons.IH by (simp add: p)
  qed
qed

lemma canonical_x_app: "CanonicalMIMEHeaderKey ''x-app'' = ''X-App''"
  by (simp add: CanonicalMIMEHeaderKey_def validHeaderFieldByte_def lower_letters_def
      upper_letters_def to_upper_def to_lower_def Let_def)

lemma canonical_X_App: "CanonicalMIMEHeaderKey ''X-App'' = ''X-App''"
  by (simp add: CanonicalMIMEHeaderKey_def validHeaderFieldByte_def lower_letters_def
      upper_letters_def to_upper_def to_lower_def Let_def)

lemma canonical_Content_Type: "CanonicalMIMEHeaderKey ''Content-Type'' = ''Content-Type''"
  by (simp add: CanonicalMIMEHeaderKey_def validHeaderFieldByte_def lower_letters_def
      upper_letters_def to_upper_def to_lower_def Let_def)

lemma canonical_content_type: "CanonicalMIMEHeaderKey ''content-type'' = ''Content-Type''"
  by (simp add: CanonicalMIMEHeaderKey_def validHeaderFieldByte_def lower_letters_def
      upper_letters_def to_upper_def to_lower_def Let_def)

text \<open>
  C5, as stated, for every header mapping: it fails for the mapping
  \<^verbatim>\<open>{"x-app": "one", "X-App": "two"}\<close>, whose two names are one header. The wrapped transport
  here answers with the value it finds for the header it is asked about. Whichever entry the
  loop visits first, the request that reaches it carries the value of the other entry under
  both names.
\<close>

theorem headerTransport_same_header_counterexample:
  "range_visits [''x-app'' \<mapsto> ''one'', ''X-App'' \<mapsto> ''two''] [(''x-app'', ''one''), (''X-App'', ''two'')]
   \<and> range_visits [''x-app'' \<mapsto> ''one'', ''X-App'' \<mapsto> ''two''] [(''X-App'', ''two''), (''x-app'', ''one'')]
   \<and> RoundTrip
        (\<lambda>rt r. Returned (Responded
           \<lparr>StatusCode = 200, Body = \<lparr>unread = Header_Get (Header r) ''x-app'', closed = False\<rparr>\<rparr>))
        (\<lambda>m. [(''x-app'', ''one''), (''X-App'', ''two'')])
        (HeaderTransportPtr (CustomRT 0) (Some [''x-app'' \<mapsto> ''one'', ''X-App'' \<mapsto> ''two'']))
        \<lparr>Method = ''GET'', URL = ''http://example.com'', Header = Map.empty, req_Body = None\<rparr>
      = Returned (Responded \<lparr>StatusCode = 200, Body = \<lparr>unread = ''two'', closed = False\<rparr>\<rparr>)
   \<and> RoundTrip
        (\<lambda>rt r. Returned (Responded
           \<lparr>StatusCode = 200, Body = \<lparr>unread = Header_Get (Header r) ''X-App'', closed = False\<rparr>\<rparr>))
        (\<lambda>m. [(''X-App'', ''two''), (''x-app'', ''one'')])
        (HeaderTransportPtr (CustomRT 0) (Some [''x-app'' \<mapsto> ''one'', ''X-App'' \<mapsto> ''two'']))
        \<lparr>Method = ''GET'', URL = ''http://example.com'', Header = Map.empty, req_Body = None\<rparr>
      = Returned (Responded \<lparr>StatusCode = 200, Body = \<lparr>unread = ''one'', closed = False\<rparr>\<rparr>)"
  by (simp add: range_visits_def range_over_def set_headers_def Header_Set_def Header_Get_def
      canonical_x_app canonical_X_App fun_upd_twist)

text \<open>
  C5, amended: when no two names of the mapping have the same canonical form, the request
  that the header transport hands to the wrapped transport returns, for every entry of the
  mapping, the entry's value for the entry's name (\<^verbatim>\<open>Header.Get\<close>), whatever the caller had
  set; its method, URL and body are the caller's. \<open>visit\<close> is any order in which the loop
  may visit the mapping.
\<close>

theorem headerTransport_RoundTrip_sets_headers:
  assumes "range_visits (entries headers) (range_over visit headers)"
    and "inj_on CanonicalMIMEHeaderKey (dom (entries headers))"
  shows "\<exists>req'. RoundTrip ext visit (HeaderTransportPtr base headers) req
                  = RoundTrip ext visit base req'
     \<and> (\<forall>key val. entries headers key = Some val \<longrightarrow> Header_Get (Header req') key = val)
     \<and> Method req' = Method req \<and> URL req' = URL req \<and> req_Body req' = req_Body req"
proof -
  let ?kvs = "range_over visit headers"
  let ?req' = "set_headers ?kvs req"
  have d: "distinct (map fst ?kvs)" and m: "map_of ?kvs = entries headers"
    using assms(1) by (simp_all add: range_visits_def)
  have "Header_Get (Header ?req') key = val" if kv: "entries headers key = Some val" for key val
  proof -
    have mem: "(key, val) \<in> set ?kvs" using kv m by (simp add: map_of_SomeD)
    have "\<forall>(k', v') \<in> set ?kvs. k' \<noteq> key
        \<longrightarrow> CanonicalMIMEHeaderKey k' \<noteq> CanonicalMIMEHeaderKey key"
    proof (clarify)
      fix k' v'
      assume in': "(k', v') \<in> set ?kvs" and ne: "k' \<noteq> key"
        and eq: "CanonicalMIMEHeaderKey k' = CanonicalMIMEHeaderKey key"
      have "map_of ?kvs k' = Some v'" using d in' by simp
      then have "k' \<in> dom (entries headers)" using m by auto
      moreover have "key \<in> dom (entries headers)" using kv by auto
      ultimately show False using assms(2) eq ne by (auto dest: inj_onD)
    qed
    from fold_Header_Set_entry [OF d mem this]
    show ?thesis by (simp add: Header_Get_def set_headers_Header)
  qed
  then show ?thesis
    using set_headers_frame [of ?kvs req] by (intro exI [of _ ?req']) simp
qed

theorem headerTransport_RoundTrip_sets_headers_witness:
  "\<exists>req'. RoundTrip (\<lambda>rt r. Returned (Failed (LibError ''connection refused'')))
              (\<lambda>m. [(''x-app'', ''myapp'')])
              (HeaderTransportPtr (CustomRT 0) (Some [''x-app'' \<mapsto> ''myapp'']))
              \<lparr>Method = ''GET'', URL = ''http://example.com'',
                Header = [''X-App'' \<mapsto> [''theirs'']], req_Body = None\<rparr>
          = RoundTrip (\<lambda>rt r. Returned (Failed (LibError ''connection refused'')))
              (\<lambda>m. [(''x-app'', ''myapp'')]) (CustomRT 0) req'
     \<and> Header_Get (Header req') ''x-app'' = ''myapp''
     \<and> Method req' = ''GET''"
proof -
  have 1: "range_visits (entries (Some [''x-app'' \<mapsto> ''myapp'']))
             (range_over (\<lambda>m. [(''x-app'', ''myapp'')]) (Some [''x-app'' \<mapsto> ''myapp'']))"
    by (simp add: range_visits_def entries_def range_over_def)
  have 2: "inj_on CanonicalMIMEHeaderKey (dom (entries (Some [''x-app'' \<mapsto> ''myapp''])))"
    by (simp add: entries_def)
  from headerTransport_RoundTrip_sets_headers [OF 1 2,
      of "\<lambda>rt r. Returned (Failed (LibError ''connection refused''))" "CustomRT 0"
         "\<lparr>Method = ''GET'', URL = ''http://example.com'',
           Header = [''X-App'' \<mapsto> [''theirs'']], req_Body = None\<rparr>"]
  obtain req' where r:
    "RoundTrip (\<lambda>rt r. Returned (Failed (LibError ''connection refused'')))
              (\<lambda>m. [(''x-app'', ''myapp'')])
              (HeaderTransportPtr (CustomRT 0) (Some [''x-app'' \<mapsto> ''myapp'']))
              \<lparr>Method = ''GET'', URL = ''http://example.com'',
                Header = [''X-App'' \<mapsto> [''theirs'']], req_Body = None\<rparr>
          = RoundTrip (\<lambda>rt r. Returned (Failed (LibError ''connection refused'')))
              (\<lambda>m. [(''x-app'', ''myapp'')]) (CustomRT 0) req'"
    "\<forall>key val. entries (Some [''x-app'' \<mapsto> ''myapp'']) key = Some val
        \<longrightarrow> Header_Get (Header req') key = val"
    "Method req' = ''GET''"
    by auto
  have "Header_Get (Header req') ''x-app'' = ''myapp''"
    using r(2) by (simp add: entries_def)
  then show ?thesis using r(1,3) by blast
qed

text \<open>
  C8. The claim is that the request \<^verbatim>\<open>PostJSON\<close> sends has \<^verbatim>\<open>Content-Type\<close> equal to
  \<^verbatim>\<open>application/json\<close> whatever the caller's headers. \<^verbatim>\<open>PostJSON\<close> writes the entry
  \<^verbatim>\<open>Content-Type\<close> into the map and leaves the rest to the loop of \<^verbatim>\<open>Post\<close>; an entry of the
  caller under another spelling of the name, here \<^verbatim>\<open>content-type\<close>, is a second entry of the
  map for the same header, and when the loop visits it last it wins: the request is sent
  with \<^verbatim>\<open>text/plain\<close>.
\<close>

theorem PostJSON_content_type_overridden:
  "range_visits [''content-type'' \<mapsto> ''text/plain'', ''Content-Type'' \<mapsto> ''application/json'']
      [(''Content-Type'', ''application/json''), (''content-type'', ''text/plain'')]
   \<and> (\<exists>req. fst (PostJSON initial_HTTPClient (\<lambda>_. None) (\<lambda>_. Inr ''{\"key\":\"value\"}'')
                 (\<lambda>m. [(''Content-Type'', ''application/json''), (''content-type'', ''text/plain'')])
                 (\<lambda>_. Responded \<lparr>StatusCode = 201, Body = \<lparr>unread = ''POST response'', closed = False\<rparr>\<rparr>)
                 ''http://example.com'' () (Some [''content-type'' \<mapsto> ''text/plain'']))
          = Some (Returned
                   (Some \<lparr>StatusCode = 201, Body = \<lparr>unread = ''POST response'', closed = False\<rparr>\<rparr>,
                    None),
                  [EvSend req])
        \<and> Header_Get (Header req) ''Content-Type'' = ''text/plain'')"
  by (simp add: range_visits_def PostJSON_def Post_def NewRequest_def range_over_def
      set_headers_def Header_Set_def Header_Get_def canonical_Content_Type
      canonical_content_type initial_HTTPClient_def Do_def Do_loop.simps Do_attempt_def
      before_retry_def fun_upd_twist)

text \<open>
  What does hold: when the value serialises and no other name of the caller's map has the
  canonical form \<^verbatim>\<open>Content-Type\<close>, the request handed to \<^verbatim>\<open>Do\<close> has \<^verbatim>\<open>Content-Type\<close> equal
  to \<^verbatim>\<open>application/json\<close>; and a value that does not serialise gives the encoder's error
  with no event at all.
\<close>

lemma PostJSON_content_type_forced:
  assumes "marshal jsonBody = Inr body" "parse url = None"
    and "range_visits ((entries headers)(''Content-Type'' \<mapsto> ''application/json''))
           (visit ((entries headers)(''Content-Type'' \<mapsto> ''application/json'')))"
    and "\<forall>key \<in> dom (entries headers). key \<noteq> ''Content-Type''
           \<longrightarrow> CanonicalMIMEHeaderKey key \<noteq> ''Content-Type''"
  shows "\<exists>req. fst (PostJSON hc parse marshal visit tr url jsonBody headers) = Do hc tr req
           \<and> Header_Get (Header req) ''Content-Type'' = ''application/json''"
proof -
  let ?m = "(entries headers)(''Content-Type'' \<mapsto> ''application/json'')"
  let ?kvs = "visit ?m"
  let ?req0 = "\<lparr>Method = ''POST'', URL = url, Header = Map.empty, req_Body = Some body\<rparr>"
  have d: "distinct (map fst ?kvs)" and m: "map_of ?kvs = ?m"
    using assms(3) by (simp_all add: range_visits_def)
  have mem: "(''Content-Type'', ''application/json'') \<in> set ?kvs"
    using m by (simp add: map_of_SomeD)
  have "\<forall>(k', v') \<in> set ?kvs. k' \<noteq> ''Content-Type''
      \<longrightarrow> CanonicalMIMEHeaderKey k' \<noteq> CanonicalMIMEHeaderKey ''Content-Type''"
  proof (clarify)
    fix k' v'
    assume in': "(k', v') \<in> set ?kvs" and ne: "k' \<noteq> ''Content-Type''"
      and eq: "CanonicalMIMEHeaderKey k' = CanonicalMIMEHeaderKey ''Content-Type''"
    have "map_of ?kvs k' = Some v'" using d in' by simp
    then have "k' \<in> dom (entries headers)" using m ne by (auto split: if_splits)
    then show False using assms(4) ne eq by (simp add: canonical_Content_Type)
  qed
  from fold_Header_Set_entry [OF d mem this]
  have "Header_Get (Header (set_headers ?kvs ?req0)) ''Content-Type'' = ''application/json''"
    by (simp add: Header_Get_def set_headers_Header)
  moreover have "fst (PostJSON hc parse marshal visit tr url jsonBody headers)
      = Do hc tr (set_headers ?kvs ?req0)"
    using assms(1,2)
    by (simp add: PostJSON_def Post_def NewRequest_def range_over_def entries_def Let_def
        split: option.splits)
  ultimately show ?thesis by blast
qed

lemma PostJSON_unserializable:
  "marshal jsonBody = Inl err \<Longrightarrow>
     fst (PostJSON hc parse marshal visit tr url jsonBody headers)
       = Some (Returned (None, Some err), [])"
  by (simp add: PostJSON_def)


end
